theory Spec2Isabelle
  imports Main
begin

section \<open>Python values, exceptions and the library functions the module calls\<close>

text \<open>
  The module \<^verbatim>\<open>dptrp1manager/tree.py\<close> builds a tree of \<^verbatim>\<open>anytree\<close>
  nodes from a list of JSON dictionaries. Values are Python values: \<^verbatim>\<open>None\<close>,
  booleans, integers, strings (a \<open>string\<close> here is a list of characters with code
  points below 256) and the \<^verbatim>\<open>datetime\<close> objects that \<^verbatim>\<open>todatetime\<close>
  produces. Every exception the module or the libraries it calls can raise is a value of
  \<open>error\<close>. \<^verbatim>\<open>ChildResolverError\<close> is a subclass of \<^verbatim>\<open>ResolverError\<close>
  in anytree; an \<^verbatim>\<open>except ChildResolverError\<close> clause catches the former only.
\<close>

datatype error =
  AttributeError | KeyError | TypeError | ValueError | ResolverError | ChildResolverError

datatype datetime =
  Datetime (dt_year: nat) (dt_month: nat) (dt_day: nat) (dt_hour: nat) (dt_minute: nat) (dt_second: nat)

datatype pyval = PyNone | PyBool bool | PyInt int | PyStr string | PyDatetime datetime

text \<open>\<^verbatim>\<open>bool(x)\<close>: Python truthiness. Every non-empty string is true.\<close>

fun py_bool :: "pyval \<Rightarrow> bool" where
  "py_bool PyNone = False"
| "py_bool (PyBool b) = b"
| "py_bool (PyInt n) = (n \<noteq> 0)"
| "py_bool (PyStr s) = (s \<noteq> [])"
| "py_bool (PyDatetime d) = True"

text \<open>\<^verbatim>\<open>s.split(sep)\<close> for a one-character separator: never empty, one more part
  than there are separators.\<close>

fun str_split :: "char \<Rightarrow> string \<Rightarrow> string list" where
  "str_split sep [] = [[]]"
| "str_split sep (c # cs) =
     (if c = sep then [] # str_split sep cs
      else (case str_split sep cs of [] \<Rightarrow> [[c]] | x # xs \<Rightarrow> (c # x) # xs))"

text \<open>\<^verbatim>\<open>s.rsplit(sep, 1)[0]\<close>: what stands before the last separator, or all of
  \<open>s\<close> when it has none.\<close>

definition rsplit1_head :: "char \<Rightarrow> string \<Rightarrow> string" where
  "rsplit1_head sep s =
     (if sep \<in> set s then rev (tl (dropWhile (\<lambda>c. c \<noteq> sep) (rev s))) else s)"

definition is_digit :: "char \<Rightarrow> bool" where
  "is_digit c = (c \<in> set ''0123456789'')"

definition digit_val :: "char \<Rightarrow> nat" where
  "digit_val c = of_char c - 48"

definition digits_val :: "string \<Rightarrow> nat" where
  "digits_val s = foldl (\<lambda>a c. 10 * a + digit_val c) 0 s"

text \<open>
  \<^verbatim>\<open>int(s)\<close> on a string, base 10 (CPython 3.6 to 3.10): surrounding whitespace is
  dropped, one sign may lead, and the digits may be grouped by single underscores that
  stand between two digits. \<open>None\<close> is the \<^verbatim>\<open>ValueError\<close>.
\<close>

definition is_space :: "char \<Rightarrow> bool" where
  "is_space c = (of_char c \<in> set [9, 10, 11, 12, 13, 32, 133, 160 :: nat])"

fun int_digits :: "bool \<Rightarrow> nat \<Rightarrow> string \<Rightarrow> nat option" where
  "int_digits prev acc [] = (if prev then Some acc else None)"
| "int_digits prev acc (c # cs) =
     (if is_digit c then int_digits True (10 * acc + digit_val c) cs
      else if c = CHR ''_'' \<and> prev then int_digits False acc cs
      else None)"

definition str_strip :: "string \<Rightarrow> string" where
  "str_strip s = rev (dropWhile is_space (rev (dropWhile is_space s)))"

definition int_of_str :: "string \<Rightarrow> int option" where
  "int_of_str s =
     (case str_strip s of
        [] \<Rightarrow> None
      | c # cs \<Rightarrow>
          if c = CHR ''+'' then map_option int (int_digits False 0 cs)
          else if c = CHR ''-'' then map_option (\<lambda>n. - int n) (int_digits False 0 cs)
          else map_option int (int_digits False 0 (c # cs)))"

text \<open>\<^verbatim>\<open>int(x)\<close> on a Python value.\<close>

fun py_int :: "pyval \<Rightarrow> error + int" where
  "py_int PyNone = Inl TypeError"
| "py_int (PyBool b) = Inr (if b then 1 else 0)"
| "py_int (PyInt n) = Inr n"
| "py_int (PyStr s) = (case int_of_str s of None \<Rightarrow> Inl ValueError | Some n \<Rightarrow> Inr n)"
| "py_int (PyDatetime d) = Inl TypeError"

text \<open>
  \<^verbatim>\<open>datetime.strptime(s, "%Y-%m-%dT%H:%M:%SZ")\<close>. The format is a regular expression
  matched against the whole string, letters without regard to case: four digits of year;
  a month \<^verbatim>\<open>1[0-2]|0[1-9]|[1-9]\<close>; a day \<^verbatim>\<open>3[01]|[12]\d|0[1-9]|[1-9]| [1-9]\<close>; an
  hour \<^verbatim>\<open>2[0-3]|[0-1]\d|\d\<close>; a minute \<^verbatim>\<open>[0-5]\d|\d\<close>; a second
  \<^verbatim>\<open>6[0-1]|[0-5]\d|\d\<close>. The fields hold no separator, so the string is cut at the
  separators. \<^verbatim>\<open>datetime\<close> then refuses the year 0, a day the month does not have and
  a second above 59. \<open>None\<close> is the \<^verbatim>\<open>ValueError\<close>.
\<close>

definition num_field :: "nat \<Rightarrow> nat \<Rightarrow> string \<Rightarrow> nat option" where
  "num_field lo hi f =
     (if f \<noteq> [] \<and> length f \<le> 2 \<and> list_all is_digit f \<and> lo \<le> digits_val f \<and> digits_val f \<le> hi
      then Some (digits_val f) else None)"

definition day_field :: "string \<Rightarrow> nat option" where
  "day_field f =
     (case f of
        [a, b] \<Rightarrow> if a = CHR '' '' then (if is_digit b \<and> b \<noteq> CHR ''0'' then Some (digit_val b) else None)
                  else num_field 1 31 f
      | _ \<Rightarrow> num_field 1 31 f)"

definition leap_year :: "nat \<Rightarrow> bool" where
  "leap_year y = (y mod 4 = 0 \<and> (y mod 100 \<noteq> 0 \<or> y mod 400 = 0))"

definition days_in_month :: "nat \<Rightarrow> nat \<Rightarrow> nat" where
  "days_in_month y m =
     (if m = 2 then (if leap_year y then 29 else 28)
      else if m \<in> set [4, 6, 9, 11] then 30 else 31)"

definition strptime :: "string \<Rightarrow> datetime option" where
  "strptime s =
     (case str_split (CHR ''-'') s of
        [fy, fm, rest] \<Rightarrow>
          (let fd = takeWhile (\<lambda>c. c \<noteq> CHR ''T'' \<and> c \<noteq> CHR ''t'') rest;
               clock = drop (Suc (length fd)) rest
           in if length fd = length rest then None
              else (case str_split (CHR '':'') clock of
                [fH, fM, fSZ] \<Rightarrow>
                  (if fSZ = [] \<or> (last fSZ \<noteq> CHR ''Z'' \<and> last fSZ \<noteq> CHR ''z'') then None
                   else if length fy \<noteq> 4 \<or> \<not> list_all is_digit fy then None
                   else (case (num_field 1 12 fm, day_field fd, num_field 0 23 fH,
                               num_field 0 59 fM, num_field 0 61 (butlast fSZ)) of
                     (Some m, Some d, Some H, Some M, Some S) \<Rightarrow>
                       if digits_val fy = 0 \<or> days_in_month (digits_val fy) m < d \<or> 59 < S
                       then None
                       else Some (Datetime (digits_val fy) m d H M S)
                   | _ \<Rightarrow> None))
              | _ \<Rightarrow> None))
      | _ \<Rightarrow> None)"

section \<open>The object store\<close>

text \<open>
  Nodes are objects with identity, linked to their parent and children by anytree's
  \<^verbatim>\<open>NodeMixin\<close>. The store is a list of objects; an object's identity is its index,
  and a new object gets the next index. An object holds its class, the two links that
  \<^verbatim>\<open>NodeMixin\<close> maintains and its attribute dictionary: an attribute that was never
  assigned is not in the dictionary, an attribute holding \<^verbatim>\<open>None\<close> maps to
  \<open>PyNone\<close>. Nothing is ever removed from the store: a node that is no longer
  referenced stays in it, unreachable.

  A \<open>remote_tree\<close> is the store together with the two fields of the one
  \<^verbatim>\<open>RemoteTree\<close> object: \<^verbatim>\<open>_tree\<close> (a node or \<^verbatim>\<open>None\<close>) and
  \<^verbatim>\<open>_resolver\<close> (\<^verbatim>\<open>None\<close>, or a \<^verbatim>\<open>Resolver\<close> given by the name of the
  attribute it matches path parts against).
\<close>

datatype node_class = DPNode | DPFolderNode | DPDocumentNode

record node =
  cls :: node_class
  parent :: "nat option"
  children :: "nat list"
  attrs :: "string \<rightharpoonup> pyval"

record remote_tree =
  heap :: "node list"
  tree :: "nat option"
  resolver :: "string option"

text \<open>An action runs on the state and either returns a value or raises; in both cases
  the state it leaves is part of the outcome, since what was mutated before an exception
  stays mutated.\<close>

type_synonym 'a action = "remote_tree \<Rightarrow> (error + 'a) \<times> remote_tree"

definition py_return :: "'a \<Rightarrow> 'a action" where
  "py_return x s = (Inr x, s)"

definition py_raise :: "error \<Rightarrow> 'a action" where
  "py_raise e s = (Inl e, s)"

definition py_lift :: "error + 'a \<Rightarrow> 'a action" where
  "py_lift r s = (r, s)"

definition py_bind :: "'a action \<Rightarrow> ('a \<Rightarrow> 'b action) \<Rightarrow> 'b action" where
  "py_bind m f s = (case m s of (Inl e, s') \<Rightarrow> (Inl e, s') | (Inr x, s') \<Rightarrow> f x s')"

definition py_seq :: "'a action \<Rightarrow> 'b action \<Rightarrow> 'b action" where
  "py_seq m n = py_bind m (\<lambda>_. n)"

text \<open>\<^verbatim>\<open>data[key]\<close> on a dictionary.\<close>

definition getitem :: "(string \<rightharpoonup> pyval) \<Rightarrow> string \<Rightarrow> pyval action" where
  "getitem d k = (case d k of None \<Rightarrow> py_raise KeyError | Some v \<Rightarrow> py_return v)"

text \<open>\<^verbatim>\<open>data.get(key, None)\<close>.\<close>

definition dict_get :: "(string \<rightharpoonup> pyval) \<Rightarrow> string \<Rightarrow> pyval" where
  "dict_get d k = (case d k of None \<Rightarrow> PyNone | Some v \<Rightarrow> v)"

text \<open>Object creation, before \<^verbatim>\<open>__init__\<close> runs.\<close>

definition new_object :: "node_class \<Rightarrow> nat action" where
  "new_object c s =
     (Inr (length (heap s)),
      s\<lparr>heap := heap s @ [\<lparr>cls = c, parent = None, children = [], attrs = Map.empty\<rparr>]\<rparr>)"

text \<open>\<^verbatim>\<open>node.name = value\<close>.\<close>

definition setattr :: "nat \<Rightarrow> string \<Rightarrow> pyval \<Rightarrow> unit action" where
  "setattr i k v s =
     (Inr (), s\<lparr>heap := (heap s)[i := (heap s ! i)\<lparr>attrs := (attrs (heap s ! i))(k \<mapsto> v)\<rparr>]\<rparr>)"

text \<open>\<^verbatim>\<open>getattr(node, name, None)\<close>, as the resolver reads the path attribute.\<close>

definition getattr_default :: "node list \<Rightarrow> nat \<Rightarrow> string \<Rightarrow> pyval" where
  "getattr_default h i k = (case attrs (h ! i) k of None \<Rightarrow> PyNone | Some v \<Rightarrow> v)"

text \<open>
  \<^verbatim>\<open>self.parent = value\<close> of \<^verbatim>\<open>NodeMixin\<close>, on a node that has no parent yet (the
  module assigns \<^verbatim>\<open>parent\<close> in \<^verbatim>\<open>DPNode.__init__\<close> only, to the node under
  construction). With \<^verbatim>\<open>None\<close> nothing changes; with a node, the new node is appended
  to that node's children and its parent link is set.
\<close>

definition set_parent :: "nat \<Rightarrow> nat option \<Rightarrow> unit action" where
  "set_parent i v s =
     (case v of
        None \<Rightarrow> (Inr (), s)
      | Some p \<Rightarrow>
          (Inr (), s\<lparr>heap := (heap s)[p := (heap s ! p)\<lparr>children := children (heap s ! p) @ [i]\<rparr>,
                                        i := (heap s ! i)\<lparr>parent := Some p\<rparr>]\<rparr>))"

text \<open>
  \<^verbatim>\<open>node.root\<close>: follow the parent links. A node's parent is assigned when the node is
  constructed, so the parent is an older object and has a smaller index; the walk stops
  where that fails.
\<close>

function root_of :: "node list \<Rightarrow> nat \<Rightarrow> nat" where
  "root_of h i = (case parent (h ! i) of None \<Rightarrow> i | Some p \<Rightarrow> if p < i then root_of h p else i)"
  by pat_completeness auto
termination
  by (relation "measure snd") auto

declare root_of.simps [simp del]

section \<open>The resolver of anytree\<close>

text \<open>
  \<^verbatim>\<open>Resolver(pathattr).get(node, path)\<close> as the module uses it (anytree 2.4 to 2.8):
  the path is split at \<^verbatim>\<open>/\<close>; a path that starts with \<^verbatim>\<open>/\<close> is resolved from the root
  of the node, and its first part must be the root's path attribute
  (\<^verbatim>\<open>ResolverError\<close> otherwise); then each part moves to the parent (\<^verbatim>\<open>..\<close>), stays
  (an empty part or \<^verbatim>\<open>.\<close>) or moves to the first child whose path attribute equals the
  part (\<^verbatim>\<open>ChildResolverError\<close> when there is none). The parent of the root is
  \<^verbatim>\<open>None\<close>, on which any further step is an \<^verbatim>\<open>AttributeError\<close>.
\<close>

definition resolver_child :: "node list \<Rightarrow> string \<Rightarrow> nat \<Rightarrow> string \<Rightarrow> error + nat" where
  "resolver_child h pathattr i name =
     (case find (\<lambda>c. getattr_default h c pathattr = PyStr name) (children (h ! i)) of
        None \<Rightarrow> Inl ChildResolverError
      | Some c \<Rightarrow> Inr c)"

fun resolver_walk :: "node list \<Rightarrow> string \<Rightarrow> nat option \<Rightarrow> string list \<Rightarrow> error + nat option" where
  "resolver_walk h pathattr nd [] = Inr nd"
| "resolver_walk h pathattr nd (part # parts) =
     (if part = ''..'' then
        (case nd of
           None \<Rightarrow> Inl AttributeError
         | Some i \<Rightarrow> resolver_walk h pathattr (parent (h ! i)) parts)
      else if part = [] \<or> part = ''.'' then resolver_walk h pathattr nd parts
      else
        (case nd of
           None \<Rightarrow> Inl AttributeError
         | Some i \<Rightarrow>
             (case resolver_child h pathattr i part of
                Inl e \<Rightarrow> Inl e
              | Inr c \<Rightarrow> resolver_walk h pathattr (Some c) parts)))"

definition resolver_get :: "node list \<Rightarrow> string \<Rightarrow> nat \<Rightarrow> string \<Rightarrow> error + nat option" where
  "resolver_get h pathattr nd path =
     (let parts = str_split (CHR ''/'') path in
      if (case path of [] \<Rightarrow> False | c # _ \<Rightarrow> c = CHR ''/'') then
        (let root = root_of h nd;
             rootpart = getattr_default h root pathattr;
             parts1 = tl parts
         in if hd parts1 = [] then Inl ResolverError
            else if PyStr (hd parts1) \<noteq> rootpart then Inl ResolverError
            else resolver_walk h pathattr (Some root) (tl parts1))
      else resolver_walk h pathattr (Some nd) parts)"

section \<open>The node classes\<close>

text \<open>\<^verbatim>\<open>DPNode.todatetime\<close>: \<^verbatim>\<open>strptime\<close> raises \<^verbatim>\<open>TypeError\<close> on an argument
  that is not a string.\<close>

definition todatetime :: "pyval \<Rightarrow> error + pyval" where
  "todatetime datestring =
     (if datestring \<noteq> PyNone then
        (case datestring of
           PyStr s \<Rightarrow> (case strptime s of None \<Rightarrow> Inl ValueError | Some d \<Rightarrow> Inr (PyDatetime d))
         | _ \<Rightarrow> Inl TypeError)
      else Inr PyNone)"

text \<open>\<^verbatim>\<open>DPNode.__init__\<close>. The node is linked to its parent first; the date is parsed
  after the path, name, type and id have been stored.\<close>

definition DPNode_init ::
  "nat \<Rightarrow> nat option \<Rightarrow> pyval \<Rightarrow> pyval \<Rightarrow> pyval \<Rightarrow> pyval \<Rightarrow> pyval \<Rightarrow> pyval \<Rightarrow> unit action" where
  "DPNode_init self parent' entry_path entry_name entry_type entry_id created_date is_new =
     py_seq (set_parent self parent')
    (py_seq (setattr self ''entry_path'' entry_path)
    (py_seq (setattr self ''entry_name'' entry_name)
    (py_seq (setattr self ''entry_type'' entry_type)
    (py_seq (setattr self ''entry_id'' entry_id)
    (py_bind (py_lift (todatetime created_date)) (\<lambda>d.
     py_seq (setattr self ''created_date'' d)
    (if is_new \<noteq> PyNone then setattr self ''is_new'' (PyBool (py_bool is_new))
     else setattr self ''is_new'' PyNone)))))))"

text \<open>\<^verbatim>\<open>DPFolderNode.__init__\<close>.\<close>

definition DPFolderNode_init ::
  "nat \<Rightarrow> nat option \<Rightarrow> pyval \<Rightarrow> pyval \<Rightarrow> pyval \<Rightarrow> pyval \<Rightarrow> pyval \<Rightarrow> pyval \<Rightarrow> pyval \<Rightarrow> pyval
     \<Rightarrow> unit action" where
  "DPFolderNode_init self parent' entry_path entry_name entry_type entry_id created_date is_new
      document_source parent_folder_id =
     py_seq (DPNode_init self parent' entry_path entry_name entry_type entry_id created_date is_new)
    (py_seq (setattr self ''document_source'' document_source)
            (setattr self ''parent_folder_id'' parent_folder_id))"

text \<open>\<^verbatim>\<open>DPDocumentNode.__init__\<close>. Each of the three numeric fields is
  \<^verbatim>\<open>int(x)\<close> when \<^verbatim>\<open>x\<close> is not \<^verbatim>\<open>None\<close>, and \<^verbatim>\<open>None\<close> otherwise.\<close>

definition int_or_none :: "pyval \<Rightarrow> error + pyval" where
  "int_or_none v =
     (if v \<noteq> PyNone then (case py_int v of Inl e \<Rightarrow> Inl e | Inr n \<Rightarrow> Inr (PyInt n))
      else Inr PyNone)"

definition DPDocumentNode_init ::
  "nat \<Rightarrow> nat option \<Rightarrow> pyval \<Rightarrow> pyval \<Rightarrow> pyval \<Rightarrow> pyval \<Rightarrow> pyval \<Rightarrow> pyval \<Rightarrow> pyval \<Rightarrow> pyval
     \<Rightarrow> pyval \<Rightarrow> pyval \<Rightarrow> pyval \<Rightarrow> pyval \<Rightarrow> pyval \<Rightarrow> pyval \<Rightarrow> pyval \<Rightarrow> unit action" where
  "DPDocumentNode_init self parent' entry_path entry_name entry_type entry_id created_date is_new
      author current_page document_type file_revision file_size mime_type modified_date title
      total_page =
     py_seq (DPNode_init self parent' entry_path entry_name entry_type entry_id created_date is_new)
    (py_seq (setattr self ''author'' author)
    (py_seq (setattr self ''document_type'' document_type)
    (py_seq (setattr self ''file_revision'' file_revision)
    (py_seq (setattr self ''mime_type'' mime_type)
    (py_bind (py_lift (todatetime modified_date)) (\<lambda>d.
     py_seq (setattr self ''modified_date'' d)
    (py_seq (setattr self ''title'' title)
    (py_bind (py_lift (int_or_none current_page)) (\<lambda>cp.
     py_seq (setattr self ''current_page'' cp)
    (py_bind (py_lift (int_or_none file_size)) (\<lambda>fs.
     py_seq (setattr self ''file_size'' fs)
    (py_bind (py_lift (int_or_none total_page)) (\<lambda>tp.
     setattr self ''total_page'' tp)))))))))))))"

text \<open>A constructor call creates the object and runs \<^verbatim>\<open>__init__\<close> on it; its value
  is the new object.\<close>

definition construct :: "node_class \<Rightarrow> (nat \<Rightarrow> unit action) \<Rightarrow> nat action" where
  "construct c init = py_bind (new_object c) (\<lambda>self. py_seq (init self) (py_return self))"

section \<open>The tree engine\<close>

text \<open>\<^verbatim>\<open>RemoteTree.__init__\<close>, in a store that holds nothing yet.\<close>

definition RemoteTree_init :: remote_tree where
  "RemoteTree_init = \<lparr>heap = [], tree = None, resolver = None\<rparr>"

text \<open>
  \<^verbatim>\<open>RemoteTree.get_node_by_path\<close>. \<open>Inr None\<close> is the value \<^verbatim>\<open>None\<close> (not found),
  \<open>Inr (Some i)\<close> the node \<open>i\<close>, \<open>Inl e\<close> an exception that leaves the method.
  Reading \<^verbatim>\<open>.get\<close> of a resolver that is \<^verbatim>\<open>None\<close>, or \<^verbatim>\<open>.root\<close> of a tree that is
  \<^verbatim>\<open>None\<close>, raises \<^verbatim>\<open>AttributeError\<close>; only \<^verbatim>\<open>ChildResolverError\<close> is caught.
\<close>

definition get_node_by_path :: "remote_tree \<Rightarrow> string \<Rightarrow> error + nat option" where
  "get_node_by_path s path =
     (case resolver s of
        None \<Rightarrow> Inl AttributeError
      | Some pathattr \<Rightarrow>
          (case tree s of
             None \<Rightarrow> Inl AttributeError
           | Some t \<Rightarrow>
               (case resolver_get (heap s) pathattr (root_of (heap s) t) (CHR ''/'' # path) of
                  Inl e \<Rightarrow> if e = ChildResolverError then Inr None else Inl e
                | Inr r \<Rightarrow> Inr r)))"

definition lookup :: "string \<Rightarrow> nat option action" where
  "lookup path s = (get_node_by_path s path, s)"

text \<open>\<^verbatim>\<open>RemoteTree._create_tree_root\<close>.\<close>

definition create_tree_root :: "nat action" where
  "create_tree_root =
     construct DPNode (\<lambda>self. DPNode_init self None (PyStr ''Document'') (PyStr ''Document'')
       (PyStr ''folder'') (PyStr ''root'') (PyStr ''2017-12-12T13:53:50Z'') (PyBool False))"

text \<open>\<^verbatim>\<open>RemoteTree._create_path\<close>: the loop over \<^verbatim>\<open>splpath[1:-1]\<close>, then the method.\<close>

fun create_path_loop :: "string \<Rightarrow> string list \<Rightarrow> unit action" where
  "create_path_loop lastpath [] = py_return ()"
| "create_path_loop lastpath (d # ds) =
     (let curpath = lastpath @ ''/'' @ d in
      py_seq
        (py_bind (lookup curpath) (\<lambda>found.
           if found = None then
             py_bind (lookup lastpath) (\<lambda>parent'.
               py_seq (construct DPFolderNode (\<lambda>self.
                         DPFolderNode_init self parent' (PyStr curpath) PyNone PyNone PyNone PyNone
                           PyNone PyNone PyNone))
                      (py_return ()))
           else py_return ()))
        (create_path_loop curpath ds))"

definition create_path :: "pyval \<Rightarrow> unit action" where
  "create_path path =
     (case path of
        PyStr p \<Rightarrow>
          (let splpath = str_split (CHR ''/'') p;
               lastpath = hd splpath
           in create_path_loop lastpath (butlast (tl splpath)))
      | _ \<Rightarrow> py_raise AttributeError)"

text \<open>\<^verbatim>\<open>str.rsplit\<close> of \<^verbatim>\<open>data["entry_path"]\<close>.\<close>

definition py_rsplit1_head :: "pyval \<Rightarrow> string action" where
  "py_rsplit1_head v =
     (case v of PyStr p \<Rightarrow> py_return (rsplit1_head (CHR ''/'') p) | _ \<Rightarrow> py_raise AttributeError)"

text \<open>The in-place update of \<^verbatim>\<open>RemoteTree._create_update_node\<close>, one assignment after
  the other.\<close>

definition update_node :: "nat \<Rightarrow> (string \<rightharpoonup> pyval) \<Rightarrow> unit action" where
  "update_node n data =
     py_seq (py_bind (getitem data ''entry_name'') (setattr n ''entry_name''))
    (py_seq (py_bind (getitem data ''entry_type'') (setattr n ''entry_type''))
    (py_seq (py_bind (getitem data ''entry_id'') (setattr n ''entry_id''))
    (py_seq (py_bind (getitem data ''created_date'') (\<lambda>cd.
               py_bind (py_lift (todatetime cd)) (setattr n ''created_date'')))
    (py_seq (py_bind (getitem data ''is_new'') (\<lambda>v. setattr n ''is_new'' (PyBool (py_bool v))))
    (py_seq (setattr n ''document_source'' (dict_get data ''document_source''))
            (py_bind (getitem data ''parent_folder_id'') (setattr n ''parent_folder_id'')))))))"

text \<open>The arguments of a constructor call are evaluated, from left to right, before the
  object is created.\<close>

definition new_folder :: "nat option \<Rightarrow> (string \<rightharpoonup> pyval) \<Rightarrow> unit action" where
  "new_folder parent' data =
     py_bind (getitem data ''entry_path'') (\<lambda>entry_path.
     py_bind (getitem data ''entry_name'') (\<lambda>entry_name.
     py_bind (getitem data ''entry_type'') (\<lambda>entry_type.
     py_bind (getitem data ''entry_id'') (\<lambda>entry_id.
     py_bind (getitem data ''created_date'') (\<lambda>created_date.
     py_bind (getitem data ''is_new'') (\<lambda>is_new.
     py_bind (getitem data ''parent_folder_id'') (\<lambda>parent_folder_id.
     py_seq (construct DPFolderNode (\<lambda>self.
               DPFolderNode_init self parent' entry_path entry_name entry_type entry_id created_date
                 is_new (dict_get data ''document_source'') parent_folder_id))
            (py_return ()))))))))"

definition new_document :: "nat option \<Rightarrow> (string \<rightharpoonup> pyval) \<Rightarrow> unit action" where
  "new_document parent' data =
     py_bind (getitem data ''entry_path'') (\<lambda>entry_path.
     py_bind (getitem data ''entry_name'') (\<lambda>entry_name.
     py_bind (getitem data ''entry_type'') (\<lambda>entry_type.
     py_bind (getitem data ''entry_id'') (\<lambda>entry_id.
     py_bind (getitem data ''created_date'') (\<lambda>created_date.
     py_bind (getitem data ''is_new'') (\<lambda>is_new.
     py_bind (getitem data ''author'') (\<lambda>author.
     py_bind (getitem data ''current_page'') (\<lambda>current_page.
     py_bind (getitem data ''document_type'') (\<lambda>document_type.
     py_bind (getitem data ''file_revision'') (\<lambda>file_revision.
     py_bind (getitem data ''file_size'') (\<lambda>file_size.
     py_bind (getitem data ''mime_type'') (\<lambda>mime_type.
     py_bind (getitem data ''modified_date'') (\<lambda>modified_date.
     py_bind (getitem data ''title'') (\<lambda>title.
     py_bind (getitem data ''total_page'') (\<lambda>total_page.
     py_seq (construct DPDocumentNode (\<lambda>self.
               DPDocumentNode_init self parent' entry_path entry_name entry_type entry_id
                 created_date is_new author current_page document_type file_revision file_size
                 mime_type modified_date title total_page))
            (py_return ()))))))))))))))))"

text \<open>\<^verbatim>\<open>RemoteTree._create_update_node\<close>.\<close>

definition path_arg :: "pyval \<Rightarrow> string" where
  "path_arg v = (case v of PyStr p \<Rightarrow> p | _ \<Rightarrow> [])"

definition create_update_node :: "(string \<rightharpoonup> pyval) \<Rightarrow> unit action" where
  "create_update_node data =
     py_bind (py_bind (getitem data ''entry_path'') py_rsplit1_head) (\<lambda>parentpath.
     py_bind (lookup parentpath) (\<lambda>parent'.
     py_bind (getitem data ''entry_type'') (\<lambda>entry_type.
       if entry_type = PyStr ''folder'' then
         py_bind (getitem data ''entry_path'') (\<lambda>entry_path.
         py_bind (lookup (path_arg entry_path)) (\<lambda>found.
           case found of
             None \<Rightarrow> new_folder parent' data
           | Some n \<Rightarrow> update_node n data))
       else py_bind (getitem data ''entry_type'') (\<lambda>entry_type'.
         if entry_type' = PyStr ''document'' then new_document parent' data
         else py_return ()))))"

text \<open>\<^verbatim>\<open>RemoteTree.rebuild_tree\<close>: the loop over the records, then the method.\<close>

definition set_tree :: "nat option \<Rightarrow> unit action" where
  "set_tree t s = (Inr (), s\<lparr>tree := t\<rparr>)"

definition set_resolver :: "string option \<Rightarrow> unit action" where
  "set_resolver r s = (Inr (), s\<lparr>resolver := r\<rparr>)"

fun rebuild_loop :: "(string \<rightharpoonup> pyval) list \<Rightarrow> unit action" where
  "rebuild_loop [] = py_return ()"
| "rebuild_loop (data # rest) =
     py_seq (py_bind (getitem data ''entry_path'') create_path)
    (py_seq (create_update_node data)
            (rebuild_loop rest))"

definition rebuild_tree :: "(string \<rightharpoonup> pyval) list \<Rightarrow> unit action" where
  "rebuild_tree jsondata =
     py_seq (py_bind create_tree_root (\<lambda>r. set_tree (Some r)))
    (py_seq (set_resolver (Some ''entry_name''))
            (rebuild_loop jsondata))"

text \<open>The nodes of the tree below \<open>r\<close>: \<open>r\<close> and everything reached from it along
  the children links.\<close>

inductive in_tree :: "node list \<Rightarrow> nat \<Rightarrow> nat \<Rightarrow> bool" for h :: "node list" and r :: nat where
  in_tree_root: "in_tree h r r"
| in_tree_child: "in_tree h r i \<Longrightarrow> c \<in> set (children (h ! i)) \<Longrightarrow> in_tree h r c"

section \<open>Lookup before any rebuild\<close>

text \<open>
  C3 (as stated, refuted at a concrete path): the claim says that \<^verbatim>\<open>get_node_by_path\<close>
  on a tree that was never rebuilt returns the not-found value. On the fresh object the
  lookup of \<^verbatim>\<open>Document\<close> does not return \<^verbatim>\<open>None\<close>.
\<close>

theorem C3_lookup_before_rebuild_counterexample:
  "get_node_by_path RemoteTree_init ''Document'' \<noteq> Inr None"
  by (simp add: get_node_by_path_def RemoteTree_init_def)

text \<open>
  C3 (amended): on a tree on which \<^verbatim>\<open>rebuild_tree\<close> has never run, \<^verbatim>\<open>_resolver\<close>
  is \<^verbatim>\<open>None\<close>, and \<^verbatim>\<open>get_node_by_path\<close> raises \<^verbatim>\<open>AttributeError\<close> for every
  path argument; the exception is not caught.
\<close>

theorem C3_lookup_before_rebuild_raises:
  "get_node_by_path RemoteTree_init path = Inl AttributeError"
  by (simp add: get_node_by_path_def RemoteTree_init_def)

end
